theory Spec2Isabelle
  imports Complex_Main "HOL-Library.Word"
begin

unbundle bit_operations_syntax

section \<open>Data model\<close>

text \<open>
  The repository holds two variants of one sketch: \<^verbatim>\<open>SavePower.ino\<close> and a second,
  unnamed file (called \<^verbatim>\<open>part_000\<close> below).  Functions of the first keep their names;
  functions of the second keep theirs when the name differs (\<^verbatim>\<open>configurePower\<close>,
  \<^verbatim>\<open>readTempHumidity\<close>, \<^verbatim>\<open>readLight\<close>, \<^verbatim>\<open>packageData\<close>, \<^verbatim>\<open>checkThresholds\<close>,
  \<^verbatim>\<open>handleData\<close>) and get the suffix \<open>_p0\<close> when both files use the same name.

  A C \<^verbatim>\<open>float\<close> is a finite value, an infinity or not-a-number.  The code only tests
  \<^verbatim>\<open>isnan\<close> and compares a float with the constants 5.0, 20.0, 35.0 and 80.0, which
  are exact in binary floating point, so a finite float is embedded as the real number
  it denotes.  A comparison with NaN is false.
\<close>

datatype cfloat = NaN | NegInf | Fin real | PosInf

fun isnan :: "cfloat \<Rightarrow> bool" where
  "isnan NaN = True"
| "isnan NegInf = False"
| "isnan (Fin x) = False"
| "isnan PosInf = False"

text \<open>\<open>fgt x c\<close> is \<^verbatim>\<open>x > c\<close> and \<open>flt x c\<close> is \<^verbatim>\<open>x < c\<close> for a finite constant \<open>c\<close>.\<close>

fun fgt :: "cfloat \<Rightarrow> real \<Rightarrow> bool" where
  "fgt NaN c = False"
| "fgt NegInf c = False"
| "fgt (Fin x) c = (c < x)"
| "fgt PosInf c = True"

fun flt :: "cfloat \<Rightarrow> real \<Rightarrow> bool" where
  "flt NaN c = False"
| "flt NegInf c = True"
| "flt (Fin x) c = (x < c)"
| "flt PosInf c = False"

text \<open>\<^verbatim>\<open>struct SensorData\<close>; \<^verbatim>\<open>unsigned long\<close> and \<^verbatim>\<open>TickType_t\<close> are 32 bits wide
  on the ESP32, \<^verbatim>\<open>int\<close> values stay far inside their range (see \<open>map_long\<close>) and are
  unbounded integers here.\<close>

record SensorData =
  temperature :: cfloat
  humidity :: cfloat
  lightLevel :: int
  timestamp :: "32 word"

type_synonym TickType_t = "32 word"

text \<open>
  The whole device: the globals \<^verbatim>\<open>currentData\<close> and \<^verbatim>\<open>sensorReadingReady\<close>, the
  function-local static \<^verbatim>\<open>previousLight\<close> (\<^verbatim>\<open>prevLight\<close> in part_000), the locals of
  \<^verbatim>\<open>sleepManagerTask\<close> that live across its loop iterations (\<^verbatim>\<open>idleStart\<close>,
  \<^verbatim>\<open>isIdle\<close>, \<^verbatim>\<open>gotFirst\<close> in part_000), the time since boot in ticks, and what the
  sleep controller was told: the argument of the last
  \<^verbatim>\<open>esp_sleep_enable_timer_wakeup\<close> and the number of calls of
  \<^verbatim>\<open>esp_deep_sleep_start\<close>.
\<close>

record device =
  currentData :: SensorData
  sensorReadingReady :: bool
  previousLight :: int
  idleStartTime :: TickType_t
  systemIdle :: bool
  initialMeasurementComplete :: bool
  clock :: nat
  wakeup_timer :: "64 word option"
  deep_sleep_starts :: nat

definition MEASUREMENT_INTERVAL_MS :: "32 word" where
  "MEASUREMENT_INTERVAL_MS = 30000"

definition DEEP_SLEEP_THRESHOLD_MS :: "32 word" where
  "DEEP_SLEEP_THRESHOLD_MS = 35000"

section \<open>Power profile\<close>

record esp_pm_config_esp32_t =
  max_freq_mhz :: int
  min_freq_mhz :: int
  light_sleep_enable :: bool

type_synonym esp_err_t = int

definition ESP_OK :: esp_err_t where
  "ESP_OK = 0"

text \<open>The three ways \<^verbatim>\<open>configurePowerManagement\<close> can end, one per final message.\<close>

datatype pm_outcome = PrimaryApplied | FallbackApplied | DefaultKept

definition pm_config :: esp_pm_config_esp32_t where
  "pm_config = \<lparr>max_freq_mhz = 240, min_freq_mhz = 80, light_sleep_enable = True\<rparr>"

definition fallback_config :: esp_pm_config_esp32_t where
  "fallback_config = \<lparr>max_freq_mhz = 240, min_freq_mhz = 160, light_sleep_enable = False\<rparr>"

text \<open>
  \<^verbatim>\<open>esp_pm_configure\<close> belongs to the platform: it is a parameter, a function from the
  requested configuration and the platform's state to an error code and the new state.
\<close>

definition configurePowerManagement ::
  "(esp_pm_config_esp32_t \<Rightarrow> 'p \<Rightarrow> esp_err_t \<times> 'p) \<Rightarrow> 'p \<Rightarrow> pm_outcome \<times> 'p" where
  "configurePowerManagement esp_pm_configure p0 =
     (let (result, p1) = esp_pm_configure pm_config p0 in
      if result \<noteq> ESP_OK then
        (let (result', p2) = esp_pm_configure fallback_config p1 in
         if result' = ESP_OK then (FallbackApplied, p2) else (DefaultKept, p2))
      else (PrimaryApplied, p1))"

text \<open>part_000: the same two calls; the second result is tested without being stored.\<close>

definition configurePower ::
  "(esp_pm_config_esp32_t \<Rightarrow> 'p \<Rightarrow> esp_err_t \<times> 'p) \<Rightarrow> 'p \<Rightarrow> pm_outcome \<times> 'p" where
  "configurePower esp_pm_configure p0 =
     (let (res, p1) = esp_pm_configure pm_config p0 in
      if res \<noteq> ESP_OK then
        (case esp_pm_configure fallback_config p1 of
           (res', p2) \<Rightarrow> if res' = ESP_OK then (FallbackApplied, p2) else (DefaultKept, p2))
      else (PrimaryApplied, p1))"

text \<open>
  To count the attempts, a platform is run with a journal: every call of
  \<^verbatim>\<open>esp_pm_configure\<close> appends its argument.
\<close>

definition journalled ::
  "(esp_pm_config_esp32_t \<Rightarrow> 'p \<Rightarrow> esp_err_t \<times> 'p) \<Rightarrow>
   esp_pm_config_esp32_t \<Rightarrow> esp_pm_config_esp32_t list \<times> 'p \<Rightarrow>
   esp_err_t \<times> esp_pm_config_esp32_t list \<times> 'p" where
  "journalled esp_pm_configure cfg jp =
     (let (r, p') = esp_pm_configure cfg (snd jp) in (r, fst jp @ [cfg], p'))"

text \<open>A platform that answers every request with the same error code.\<close>

definition rejecting :: "esp_err_t \<Rightarrow> esp_pm_config_esp32_t \<Rightarrow> unit \<Rightarrow> esp_err_t \<times> unit" where
  "rejecting e cfg u = (e, ())"

section \<open>Acquisition\<close>

text \<open>\<^verbatim>\<open>readDHTSensor\<close> (SavePower.ino): both fields, or neither.\<close>

definition readDHTSensor :: "cfloat \<Rightarrow> cfloat \<Rightarrow> device \<Rightarrow> device" where
  "readDHTSensor t h d =
     (if isnan t \<or> isnan h then d
      else d\<lparr>currentData := (currentData d)\<lparr>temperature := t, humidity := h\<rparr>\<rparr>)"

text \<open>\<^verbatim>\<open>readTempHumidity\<close> (part_000): each field on its own.\<close>

definition readTempHumidity :: "cfloat \<Rightarrow> cfloat \<Rightarrow> device \<Rightarrow> device" where
  "readTempHumidity t h d =
     (let d1 = (if \<not> isnan t then d\<lparr>currentData := (currentData d)\<lparr>temperature := t\<rparr>\<rparr> else d);
          d2 = (if \<not> isnan h then d1\<lparr>currentData := (currentData d1)\<lparr>humidity := h\<rparr>\<rparr> else d1)
      in d2)"

text \<open>C's integer division truncates towards zero.\<close>

definition c_div :: "int \<Rightarrow> int \<Rightarrow> int" where
  "c_div a b = sgn a * sgn b * (\<bar>a\<bar> div \<bar>b\<bar>)"

text \<open>
  Modelled from the spec: Arduino's \<^verbatim>\<open>map\<close> is a function of the core library, not of
  the source files.  The spec says that the core maps the raw range linearly to
  \<open>[0,100]\<close> in exact integer arithmetic; this is the library's documented formula
  \<^verbatim>\<open>(x - in_min) * (out_max - out_min) / (in_max - in_min) + out_min\<close>, with the
  ESP32 core's answer \<open>-1\<close> for an empty input range.  For \<open>x\<close> up to 4095 the product
  stays below \<open>2^31\<close>, so \<^verbatim>\<open>long\<close> arithmetic is exact.
\<close>

definition map_long :: "int \<Rightarrow> int \<Rightarrow> int \<Rightarrow> int \<Rightarrow> int \<Rightarrow> int" where
  "map_long x in_min in_max out_min out_max =
     (if in_max - in_min = 0 then - 1
      else c_div ((x - in_min) * (out_max - out_min)) (in_max - in_min) + out_min)"

definition readLightSensor :: "int \<Rightarrow> device \<Rightarrow> device" where
  "readLightSensor rawValue d =
     d\<lparr>currentData := (currentData d)\<lparr>lightLevel := map_long rawValue 0 4095 0 100\<rparr>\<rparr>"

definition readLight :: "int \<Rightarrow> device \<Rightarrow> device" where
  "readLight raw d =
     d\<lparr>currentData := (currentData d)\<lparr>lightLevel := map_long raw 0 4095 0 100\<rparr>\<rparr>"

section \<open>Threshold evaluation\<close>

text \<open>
  Each \<^verbatim>\<open>ALERT\<close> line the function prints is recorded as an alert, in the order of
  printing; \<^verbatim>\<open>alertCondition\<close> is true exactly when the list is not empty.  The static
  \<^verbatim>\<open>previousLight\<close> starts at \<open>-1\<close>.
\<close>

datatype alert = TemperatureAlert | HumidityAlert | LightDeltaAlert

definition checkSensorThresholds :: "device \<Rightarrow> alert list \<times> device" where
  "checkSensorThresholds d =
     (let a1 = (if fgt (temperature (currentData d)) 35 \<or> flt (temperature (currentData d)) 5
                then [TemperatureAlert] else []);
          a2 = (if fgt (humidity (currentData d)) 80 \<or> flt (humidity (currentData d)) 20
                then [HumidityAlert] else []);
          a3 = (if previousLight d \<ge> 0 \<and> \<bar>lightLevel (currentData d) - previousLight d\<bar> > 30
                then [LightDeltaAlert] else [])
      in (a1 @ a2 @ a3, d\<lparr>previousLight := lightLevel (currentData d)\<rparr>))"

text \<open>part_000 tests the baseline with \<^verbatim>\<open>prevLight != -1\<close>.\<close>

definition checkThresholds :: "device \<Rightarrow> alert list \<times> device" where
  "checkThresholds d =
     (let a1 = (if fgt (temperature (currentData d)) 35 \<or> flt (temperature (currentData d)) 5
                then [TemperatureAlert] else []);
          a2 = (if fgt (humidity (currentData d)) 80 \<or> flt (humidity (currentData d)) 20
                then [HumidityAlert] else []);
          a3 = (if previousLight d \<noteq> - 1 \<and> \<bar>lightLevel (currentData d) - previousLight d\<bar> > 30
                then [LightDeltaAlert] else [])
      in (a1 @ a2 @ a3, d\<lparr>previousLight := lightLevel (currentData d)\<rparr>))"

text \<open>\<^verbatim>\<open>processSensorData\<close> and \<^verbatim>\<open>packageData\<close>; the argument is the value of
  \<^verbatim>\<open>millis()\<close>.\<close>

definition processSensorData :: "32 word \<Rightarrow> device \<Rightarrow> alert list \<times> device" where
  "processSensorData ms d =
     checkSensorThresholds
       (d\<lparr>currentData := (currentData d)\<lparr>timestamp := ms\<rparr>, sensorReadingReady := True\<rparr>)"

definition packageData :: "32 word \<Rightarrow> device \<Rightarrow> alert list \<times> device" where
  "packageData ms d =
     checkThresholds
       (d\<lparr>currentData := (currentData d)\<lparr>timestamp := ms\<rparr>, sensorReadingReady := True\<rparr>)"

section \<open>Time\<close>

text \<open>
  Modelled from the spec: \<^verbatim>\<open>pdMS_TO_TICKS\<close> and \<^verbatim>\<open>configTICK_RATE_HZ\<close> are FreeRTOS
  macros, not in the source files.  The spec gives every duration of the state machine
  in milliseconds (5,000 ms poll, 35,000 ms threshold), which is the Arduino core's
  tick rate of 1000 Hz: one tick is one millisecond.  The macro computes in
  \<^verbatim>\<open>TickType_t\<close>.
\<close>

definition configTICK_RATE_HZ :: TickType_t where
  "configTICK_RATE_HZ = 1000"

definition pdMS_TO_TICKS :: "32 word \<Rightarrow> TickType_t" where
  "pdMS_TO_TICKS xTimeInMs = (xTimeInMs * configTICK_RATE_HZ) div 1000"

text \<open>
  Time passes only while a task is blocked (\<^verbatim>\<open>vTaskDelay\<close>, \<^verbatim>\<open>xSemaphoreTake\<close>);
  \<open>clock\<close> counts the ticks since boot without bound and the tick counter is that
  number in 32 bits, so it wraps as the hardware's does.
\<close>

definition xTaskGetTickCount :: "device \<Rightarrow> TickType_t" where
  "xTaskGetTickCount d = word_of_nat (clock d)"

definition vTaskDelay :: "TickType_t \<Rightarrow> device \<Rightarrow> device" where
  "vTaskDelay xTicksToDelay d = d\<lparr>clock := clock d + unat xTicksToDelay\<rparr>"

section \<open>Consuming a reading\<close>

text \<open>
  \<^verbatim>\<open>processDataForTransmission\<close> and \<^verbatim>\<open>handleData\<close> are \<^verbatim>\<open>void\<close> and never read
  \<^verbatim>\<open>currentData\<close>: all they do is to the device.  With the flag clear they leave
  through the early \<^verbatim>\<open>return\<close>; otherwise they block for 500 ms and clear the flag.
\<close>

definition processDataForTransmission :: "device \<Rightarrow> device" where
  "processDataForTransmission d =
     (if \<not> sensorReadingReady d then d
      else (let d1 = vTaskDelay (pdMS_TO_TICKS 500) d
            in d1\<lparr>sensorReadingReady := False\<rparr>))"

definition handleData :: "device \<Rightarrow> device" where
  "handleData d =
     (if \<not> sensorReadingReady d then d
      else (let d1 = vTaskDelay (pdMS_TO_TICKS 500) d
            in d1\<lparr>sensorReadingReady := False\<rparr>))"

section \<open>Deep sleep\<close>

text \<open>
  SavePower.ino multiplies in \<^verbatim>\<open>int\<close> and converts the product to \<^verbatim>\<open>uint64_t\<close>;
  part_000 converts first and multiplies in 64 bits.  \<^verbatim>\<open>esp_deep_sleep_start\<close> does
  not return: a device with \<open>deep_sleep_starts > 0\<close> is suspended and runs no more code.
\<close>

definition enterDeepSleep :: "device \<Rightarrow> device" where
  "enterDeepSleep d =
     (let sleepDuration = (scast (MEASUREMENT_INTERVAL_MS * 1000) :: 64 word)
      in d\<lparr>wakeup_timer := Some sleepDuration, deep_sleep_starts := deep_sleep_starts d + 1\<rparr>)"

definition enterDeepSleep_p0 :: "device \<Rightarrow> device" where
  "enterDeepSleep_p0 d =
     d\<lparr>wakeup_timer := Some ((scast MEASUREMENT_INTERVAL_MS :: 64 word) * 1000),
       deep_sleep_starts := deep_sleep_starts d + 1\<rparr>"

definition suspended :: "device \<Rightarrow> bool" where
  "suspended d = (0 < deep_sleep_starts d)"

section \<open>Sleep manager\<close>

text \<open>
  What one call \<^verbatim>\<open>xSemaphoreTake(sensorSemaphore, pdMS_TO_TICKS(5000))\<close> did: it
  returned \<^verbatim>\<open>pdTRUE\<close> after blocking for the given number of ticks, or it timed out.
\<close>

datatype poll = Taken nat | TimedOut

text \<open>One iteration of the \<^verbatim>\<open>while (true)\<close> loop of \<^verbatim>\<open>sleepManagerTask\<close>.\<close>

definition sleepManagerTask_iteration :: "poll \<Rightarrow> device \<Rightarrow> device" where
  "sleepManagerTask_iteration p d =
     (case p of
        Taken w \<Rightarrow>
          (let d1 = d\<lparr>clock := clock d + w\<rparr>;
               d2 = d1\<lparr>initialMeasurementComplete := True, systemIdle := False\<rparr>;
               d3 = processDataForTransmission d2;
               d4 = d3\<lparr>idleStartTime := xTaskGetTickCount d3\<rparr>
           in vTaskDelay (pdMS_TO_TICKS 500) d4)
      | TimedOut \<Rightarrow>
          (let d1 = d\<lparr>clock := clock d + unat (pdMS_TO_TICKS 5000)\<rparr>;
               d2 = (if initialMeasurementComplete d1 \<and> \<not> systemIdle d1
                     then d1\<lparr>systemIdle := True, idleStartTime := xTaskGetTickCount d1\<rparr>
                     else d1);
               d3 = (if initialMeasurementComplete d2 \<and> systemIdle d2
                     then (let idleDuration = xTaskGetTickCount d2 - idleStartTime d2
                           in if idleDuration > pdMS_TO_TICKS DEEP_SLEEP_THRESHOLD_MS
                              then enterDeepSleep d2 else d2)
                     else d2)
           in if suspended d3 then d3 else vTaskDelay (pdMS_TO_TICKS 500) d3))"

text \<open>part_000 handles the data first and sets its flags afterwards.\<close>

definition sleepManagerTask_iteration_p0 :: "poll \<Rightarrow> device \<Rightarrow> device" where
  "sleepManagerTask_iteration_p0 p d =
     (case p of
        Taken w \<Rightarrow>
          (let d1 = d\<lparr>clock := clock d + w\<rparr>;
               d2 = handleData d1;
               d3 = d2\<lparr>idleStartTime := xTaskGetTickCount d2\<rparr>;
               d4 = d3\<lparr>systemIdle := False, initialMeasurementComplete := True\<rparr>
           in vTaskDelay (pdMS_TO_TICKS 500) d4)
      | TimedOut \<Rightarrow>
          (let d1 = d\<lparr>clock := clock d + unat (pdMS_TO_TICKS 5000)\<rparr>;
               d2 = (if initialMeasurementComplete d1 \<and> \<not> systemIdle d1
                     then d1\<lparr>idleStartTime := xTaskGetTickCount d1, systemIdle := True\<rparr>
                     else d1);
               d3 = (if initialMeasurementComplete d2 \<and> systemIdle d2
                     then (let idleTime = xTaskGetTickCount d2 - idleStartTime d2
                           in if idleTime > pdMS_TO_TICKS DEEP_SLEEP_THRESHOLD_MS
                              then enterDeepSleep_p0 d2 else d2)
                     else d2)
           in if suspended d3 then d3 else vTaskDelay (pdMS_TO_TICKS 500) d3))"

text \<open>
  The loop, driven by what its polls of the semaphore did.  It never ends by itself; a
  suspended device runs nothing.
\<close>

fun sleepManagerTask :: "poll list \<Rightarrow> device \<Rightarrow> device" where
  "sleepManagerTask [] d = d"
| "sleepManagerTask (p # ps) d =
     (if suspended d then d else sleepManagerTask ps (sleepManagerTask_iteration p d))"

fun sleepManagerTask_p0 :: "poll list \<Rightarrow> device \<Rightarrow> device" where
  "sleepManagerTask_p0 [] d = d"
| "sleepManagerTask_p0 (p # ps) d =
     (if suspended d then d else sleepManagerTask_p0 ps (sleepManagerTask_iteration_p0 p d))"

text \<open>The clock values at which the polls of a run obtained the semaphore.\<close>

fun signal_times :: "poll list \<Rightarrow> device \<Rightarrow> nat list" where
  "signal_times [] d = []"
| "signal_times (p # ps) d =
     (if suspended d then []
      else (case p of Taken w \<Rightarrow> [clock d + w] | TimedOut \<Rightarrow> [])
           @ signal_times ps (sleepManagerTask_iteration p d))"

text \<open>The phases of the spec, read off the task's two flags.\<close>

datatype phase = WaitingFirst | Active | Idle | DeepSleep

definition phase_of :: "device \<Rightarrow> phase" where
  "phase_of d =
     (if suspended d then DeepSleep
      else if \<not> initialMeasurementComplete d then WaitingFirst
      else if systemIdle d then Idle else Active)"

text \<open>
  The device after \<^verbatim>\<open>setup\<close>: globals are zero, the static \<^verbatim>\<open>previousLight\<close> is
  \<open>-1\<close>, and \<^verbatim>\<open>idleStartTime\<close> is not initialised, so it holds any value.
\<close>

definition boot :: "TickType_t \<Rightarrow> device" where
  "boot junk =
     \<lparr>currentData = \<lparr>temperature = Fin 0, humidity = Fin 0, lightLevel = 0, timestamp = 0\<rparr>,
      sensorReadingReady = False, previousLight = - 1,
      idleStartTime = junk, systemIdle = False, initialMeasurementComplete = False,
      clock = 0, wakeup_timer = None, deep_sleep_starts = 0\<rparr>"

section \<open>The two tasks together\<close>

text \<open>What the drivers return in one acquisition cycle: \<^verbatim>\<open>dht.readTemperature()\<close>,
  \<^verbatim>\<open>dht.readHumidity()\<close> and \<^verbatim>\<open>adc1_get_raw\<close>.\<close>

record sensor_input =
  dht_temperature :: cfloat
  dht_humidity :: cfloat
  adc_raw :: int

text \<open>
  The body of the loop of \<^verbatim>\<open>sensorTask\<close> up to \<^verbatim>\<open>xSemaphoreGive\<close>, with the value of
  \<^verbatim>\<open>millis()\<close>.  Its own delays block the sensor task, not the sleep manager.
\<close>

definition sensorTask_cycle :: "sensor_input \<Rightarrow> 32 word \<Rightarrow> device \<Rightarrow> device" where
  "sensorTask_cycle i ms d =
     snd (processSensorData ms
            (readLightSensor (adc_raw i)
               (readDHTSensor (dht_temperature i) (dht_humidity i) d)))"

definition sensorTask_cycle_p0 :: "sensor_input \<Rightarrow> 32 word \<Rightarrow> device \<Rightarrow> device" where
  "sensorTask_cycle_p0 i ms d =
     snd (packageData ms
            (readLight (adc_raw i)
               (readTempHumidity (dht_temperature i) (dht_humidity i) d)))"

text \<open>
  \<^verbatim>\<open>vTaskDelayUntil(&lastWakeTime, measurementPeriod)\<close> makes the cycles start one
  period apart; with cycles of equal length the semaphore is given at \<open>first_give\<close> and
  then once every period.
\<close>

definition give_time :: "nat \<Rightarrow> nat \<Rightarrow> nat" where
  "give_time first_give k = first_give + unat (pdMS_TO_TICKS MEASUREMENT_INTERVAL_MS) * k"

text \<open>
  Modelled from the spec: the semaphore is FreeRTOS's, not in the source files.  The
  spec calls it a one-shot, non-queuing binary handoff: a signal given while the state
  machine is not waiting is latched and consumed by the next wait, and signals given
  before that wait coalesce into one.  \<open>k\<close> counts the signals given so far that the
  semaphore has passed on or coalesced; the call is made at time \<open>now\<close>.  A signal that
  is already there is taken at once, together with every other signal given up to
  \<open>now\<close>; a signal given before the wait runs out is taken when it is given; otherwise
  the call times out.
\<close>

definition xSemaphoreTake :: "nat \<Rightarrow> nat \<Rightarrow> nat \<Rightarrow> TickType_t \<Rightarrow> poll \<times> nat" where
  "xSemaphoreTake first_give k now xTicksToWait =
     (if give_time first_give k \<le> now
      then (Taken 0, Suc ((now - first_give) div unat (pdMS_TO_TICKS MEASUREMENT_INTERVAL_MS)))
      else if give_time first_give k < now + unat xTicksToWait
      then (Taken (give_time first_give k - now), Suc k)
      else (TimedOut, k))"

text \<open>
  One iteration of the sleep manager's loop in the running system: the poll, the sensor
  cycles that ended before the poll returned, then the loop body.
\<close>

definition system_step ::
  "(poll \<Rightarrow> device \<Rightarrow> device) \<Rightarrow> (sensor_input \<Rightarrow> 32 word \<Rightarrow> device \<Rightarrow> device) \<Rightarrow>
   nat \<Rightarrow> (nat \<Rightarrow> sensor_input) \<Rightarrow> nat \<times> device \<Rightarrow> nat \<times> device" where
  "system_step iteration cycle first_give env kd =
     (if suspended (snd kd) then kd
      else (let (p, k') = xSemaphoreTake first_give (fst kd) (clock (snd kd)) (pdMS_TO_TICKS 5000);
                d' = fold (\<lambda>j. cycle (env j) (word_of_nat (give_time first_give j))) [fst kd..<k'] (snd kd)
            in (k', iteration p d')))"

fun system_run ::
  "(poll \<Rightarrow> device \<Rightarrow> device) \<Rightarrow> (sensor_input \<Rightarrow> 32 word \<Rightarrow> device \<Rightarrow> device) \<Rightarrow>
   nat \<Rightarrow> (nat \<Rightarrow> sensor_input) \<Rightarrow> nat \<Rightarrow> nat \<times> device \<Rightarrow> nat \<times> device" where
  "system_run iteration cycle first_give env 0 kd = kd"
| "system_run iteration cycle first_give env (Suc n) kd =
     system_run iteration cycle first_give env n (system_step iteration cycle first_give env kd)"

text \<open>The device after \<open>n\<close> iterations of the sleep manager's loop, from boot, for
  each of the two files.\<close>

definition savePower_system :: "nat \<Rightarrow> (nat \<Rightarrow> sensor_input) \<Rightarrow> TickType_t \<Rightarrow> nat \<Rightarrow> device" where
  "savePower_system first_give env junk n =
     snd (system_run sleepManagerTask_iteration sensorTask_cycle first_give env n (0, boot junk))"

definition part000_system :: "nat \<Rightarrow> (nat \<Rightarrow> sensor_input) \<Rightarrow> TickType_t \<Rightarrow> nat \<Rightarrow> device" where
  "part000_system first_give env junk n =
     snd (system_run sleepManagerTask_iteration_p0 sensorTask_cycle_p0 first_give env n (0, boot junk))"

text \<open>A sensor cycle that leaves the sleep manager's variables, the clock and the sleep
  controller alone.\<close>

definition sensor_only :: "(sensor_input \<Rightarrow> 32 word \<Rightarrow> device \<Rightarrow> device) \<Rightarrow> bool" where
  "sensor_only cycle =
     (\<forall>i ms d. idleStartTime (cycle i ms d) = idleStartTime d \<and>
        systemIdle (cycle i ms d) = systemIdle d \<and>
        initialMeasurementComplete (cycle i ms d) = initialMeasurementComplete d \<and>
        clock (cycle i ms d) = clock d \<and>
        wakeup_timer (cycle i ms d) = wakeup_timer d \<and>
        deep_sleep_starts (cycle i ms d) = deep_sleep_starts d)"

text \<open>
  The invariant of the running system: the device is awake; the next signal is at most
  1000 ticks overdue; once a signal was received, the next one is due within 30000
  ticks of now, and of the start of the idle timer when the manager is idle.
\<close>

definition on_schedule :: "nat \<Rightarrow> nat \<times> device \<Rightarrow> bool" where
  "on_schedule first_give kd =
     (\<not> suspended (snd kd) \<and>
      clock (snd kd) \<le> give_time first_give (fst kd) + 1000 \<and>
      (initialMeasurementComplete (snd kd) \<longrightarrow>
         give_time first_give (fst kd) \<le> clock (snd kd) + 30000 \<and>
         (systemIdle (snd kd) \<longrightarrow>
            (\<exists>s. idleStartTime (snd kd) = word_of_nat s \<and> s \<le> clock (snd kd) \<and>
                 give_time first_give (fst kd) \<le> s + 30000))))"

text \<open>A device whose stored reading has the given temperature, humidity and light
  level; used to state examples.\<close>

definition reading :: "real \<Rightarrow> real \<Rightarrow> int \<Rightarrow> device \<Rightarrow> device" where
  "reading t h l d =
     d\<lparr>currentData := (currentData d)\<lparr>temperature := Fin t, humidity := Fin h, lightLevel := l\<rparr>\<rparr>"

section \<open>Acquisition: invalid readings and the light percentage\<close>

lemma map_long_percent:
  "0 \<le> x \<Longrightarrow> map_long x 0 4095 0 100 = x * 100 div 4095"
  by (simp add: map_long_def c_div_def sgn_if)

text \<open>
  C4, as stated, fails on SavePower.ino: when the temperature is NaN and the humidity is
  a valid 55, \<^verbatim>\<open>readDHTSensor\<close> keeps the old humidity as well.
\<close>

theorem readDHTSensor_discards_fresh_humidity:
  "humidity (currentData (readDHTSensor NaN (Fin 55) (boot 0))) \<noteq> Fin 55"
  by (simp add: readDHTSensor_def boot_def)

text \<open>
  C4, amended: the two files differ.  In part_000 (\<^verbatim>\<open>readTempHumidity\<close>) a field whose
  reading is NaN keeps its previous value while the other field takes the fresh value.
  In SavePower.ino (\<^verbatim>\<open>readDHTSensor\<close>) a NaN in either reading leaves both fields, and
  the whole device state, as they were.
\<close>

theorem carry_forward_by_variant:
  "(isnan t \<and> \<not> isnan h \<longrightarrow>
      temperature (currentData (readTempHumidity t h d)) = temperature (currentData d) \<and>
      humidity (currentData (readTempHumidity t h d)) = h) \<and>
   (\<not> isnan t \<and> isnan h \<longrightarrow>
      temperature (currentData (readTempHumidity t h d)) = t \<and>
      humidity (currentData (readTempHumidity t h d)) = humidity (currentData d)) \<and>
   (isnan t \<or> isnan h \<longrightarrow> readDHTSensor t h d = d)"
  by (simp add: readTempHumidity_def readDHTSensor_def)

theorem carry_forward_by_variant_witness:
  "temperature (currentData (readTempHumidity NaN (Fin 55) (boot 0))) = Fin 0 \<and>
   humidity (currentData (readTempHumidity NaN (Fin 55) (boot 0))) = Fin 55 \<and>
   temperature (currentData (readTempHumidity (Fin 28) NaN (boot 0))) = Fin 28 \<and>
   humidity (currentData (readTempHumidity (Fin 28) NaN (boot 0))) = Fin 0 \<and>
   readDHTSensor NaN (Fin 55) (boot 0) = boot 0"
  using carry_forward_by_variant [of NaN "Fin 55" "boot 0"]
    carry_forward_by_variant [of "Fin 28" NaN "boot 0"]
  by (simp add: boot_def)

text \<open>
  C9: for a raw ADC value from 0 to 4095 the stored light level is \<open>raw * 100 div 4095\<close>,
  which lies between 0 and 100; it is 0 at raw 0 and 100 at raw 4095, and a larger raw
  value never gives a smaller level.  Both files compute the same.
\<close>

theorem light_percentage:
  "(0 \<le> raw \<and> raw \<le> 4095 \<longrightarrow>
      0 \<le> lightLevel (currentData (readLightSensor raw d)) \<and>
      lightLevel (currentData (readLightSensor raw d)) \<le> 100 \<and>
      lightLevel (currentData (readLightSensor raw d)) = raw * 100 div 4095) \<and>
   lightLevel (currentData (readLightSensor 0 d)) = 0 \<and>
   lightLevel (currentData (readLightSensor 4095 d)) = 100 \<and>
   (0 \<le> raw \<and> raw \<le> raw' \<and> raw' \<le> 4095 \<longrightarrow>
      lightLevel (currentData (readLightSensor raw d))
        \<le> lightLevel (currentData (readLightSensor raw' d))) \<and>
   readLight raw d = readLightSensor raw d"
proof -
  have mono: "x * 100 div 4095 \<le> y * 100 div 4095" if "x \<le> y" for x y :: int
    using that by (intro zdiv_mono1) simp_all
  have range: "0 \<le> x * 100 div 4095 \<and> x * 100 div 4095 \<le> 100"
    if "0 \<le> x" "x \<le> 4095" for x :: int
    using mono [of 0 x] mono [of x 4095] that by simp
  show ?thesis
    using range [of raw] mono [of raw raw']
    by (simp add: readLightSensor_def readLight_def map_long_percent)
qed

theorem light_percentage_witness:
  "lightLevel (currentData (readLightSensor 2048 (boot 0))) = 50 \<and>
   lightLevel (currentData (readLightSensor 2048 (boot 0)))
     \<le> lightLevel (currentData (readLightSensor 4000 (boot 0)))"
  using light_percentage [of 2048 "boot 0" 4000]
  by (simp add: readLightSensor_def map_long_def c_div_def)

section \<open>Power profile: the fallback chain\<close>

text \<open>
  C5: when the platform rejects the primary profile, the journal of
  \<^verbatim>\<open>esp_pm_configure\<close> calls is exactly the primary profile followed by the fallback
  profile, whatever the fallback's result; the fallback has the higher minimum frequency
  and light sleep disabled; and the function returns, with the fallback applied when the
  second call succeeded and on the platform's default otherwise.  Both files agree.
\<close>

theorem fallback_attempted_once:
  assumes "fst (esp_pm_configure pm_config p0) \<noteq> ESP_OK"
  shows "fst (snd (configurePowerManagement (journalled esp_pm_configure) ([], p0)))
           = [pm_config, fallback_config] \<and>
         fst (snd (configurePower (journalled esp_pm_configure) ([], p0)))
           = [pm_config, fallback_config] \<and>
         min_freq_mhz pm_config < min_freq_mhz fallback_config \<and>
         \<not> light_sleep_enable fallback_config \<and>
         fst (configurePowerManagement (journalled esp_pm_configure) ([], p0))
           = (if fst (esp_pm_configure fallback_config (snd (esp_pm_configure pm_config p0))) = ESP_OK
              then FallbackApplied else DefaultKept) \<and>
         fst (configurePower (journalled esp_pm_configure) ([], p0))
           = fst (configurePowerManagement (journalled esp_pm_configure) ([], p0))"
proof -
  have freq: "min_freq_mhz pm_config < min_freq_mhz fallback_config \<and>
              \<not> light_sleep_enable fallback_config"
    by (simp add: pm_config_def fallback_config_def)
  show ?thesis
    using assms freq
    by (simp add: configurePowerManagement_def configurePower_def journalled_def
        case_prod_beta)
qed

theorem fallback_attempted_once_witness:
  "fst (snd (configurePowerManagement (journalled (rejecting 258)) ([], ())))
     = [pm_config, fallback_config] \<and>
   fst (configurePowerManagement (journalled (rejecting 258)) ([], ())) = DefaultKept \<and>
   fst (configurePower (journalled (rejecting 258)) ([], ())) = DefaultKept"
  using fallback_attempted_once [of "rejecting 258" "()"]
  by (simp add: rejecting_def ESP_OK_def)

section \<open>Threshold evaluation: the alerts\<close>

text \<open>
  C6: a reading with a finite temperature from 5 to 35 and a finite humidity from 20 to
  80, checked while the previous light level is still the initial \<open>-1\<close>, raises no alert
  in either file.
\<close>

theorem in_range_no_alert:
  assumes "temperature (currentData d) = Fin t" and "5 \<le> t" and "t \<le> 35"
    and "humidity (currentData d) = Fin h" and "20 \<le> h" and "h \<le> 80"
    and "previousLight d = - 1"
  shows "fst (checkSensorThresholds d) = [] \<and> fst (checkThresholds d) = []"
  using assms by (simp add: checkSensorThresholds_def checkThresholds_def)

theorem in_range_no_alert_witness:
  "fst (checkSensorThresholds (reading 28 55 40 (boot 0))) = [] \<and>
   fst (checkThresholds (reading 28 55 40 (boot 0))) = []"
  using in_range_no_alert [of "reading 28 55 40 (boot 0)" 28 55]
  by (simp add: reading_def boot_def)

text \<open>
  C7: when a previous light level exists (it is not negative), the light alert is raised
  exactly when the new level differs from it by more than 30; the check then stores the
  new level as the previous one, so the comparison is always between consecutive
  readings.  Both files agree.
\<close>

theorem light_delta_alert_iff:
  assumes "0 \<le> previousLight d"
  shows "(LightDeltaAlert \<in> set (fst (checkSensorThresholds d)))
           = (30 < \<bar>lightLevel (currentData d) - previousLight d\<bar>) \<and>
         (LightDeltaAlert \<in> set (fst (checkThresholds d)))
           = (30 < \<bar>lightLevel (currentData d) - previousLight d\<bar>) \<and>
         previousLight (snd (checkSensorThresholds d)) = lightLevel (currentData d) \<and>
         previousLight (snd (checkThresholds d)) = lightLevel (currentData d)"
  using assms by (simp add: checkSensorThresholds_def checkThresholds_def)

text \<open>The spec's scenario: light 40 then 80 raises the light alert alone; 40 then 70
  raises nothing.\<close>

theorem light_delta_alert_iff_witness:
  "fst (checkSensorThresholds
          (reading 28 55 80 (snd (checkSensorThresholds (reading 28 55 40 (boot 0))))))
     = [LightDeltaAlert] \<and>
   fst (checkSensorThresholds
          (reading 28 55 70 (snd (checkSensorThresholds (reading 28 55 40 (boot 0))))))
     = []"
  using light_delta_alert_iff
    [of "reading 28 55 80 (snd (checkSensorThresholds (reading 28 55 40 (boot 0))))"]
  by (simp add: reading_def boot_def checkSensorThresholds_def)

section \<open>Consuming a reading: twice, and what it changes\<close>

text \<open>
  C8, as stated, fails: the call returns no reading.  \<^verbatim>\<open>processDataForTransmission\<close>
  is \<^verbatim>\<open>void\<close>, and on a device that has just published the reading (28, 55, 40) all
  the first call yields is that device with the flag cleared and 500 ticks gone.  A
  device that published (10, 30, 90) instead comes out the same but for the stored
  values themselves, so nothing the call produces depends on the reading.
\<close>

theorem consume_hands_back_no_reading:
  "processDataForTransmission (snd (processSensorData 2100 (reading 28 55 40 (boot 0))))
     = (snd (processSensorData 2100 (reading 28 55 40 (boot 0))))
         \<lparr>sensorReadingReady := False, clock := 500\<rparr> \<and>
   (processDataForTransmission (snd (processSensorData 2100 (reading 28 55 40 (boot 0)))))
       \<lparr>currentData := currentData (snd (processSensorData 2100 (reading 10 30 90 (boot 0)))),
        previousLight := previousLight (snd (processSensorData 2100 (reading 10 30 90 (boot 0))))\<rparr>
     = processDataForTransmission (snd (processSensorData 2100 (reading 10 30 90 (boot 0)))) \<and>
   currentData (snd (processSensorData 2100 (reading 28 55 40 (boot 0))))
     \<noteq> currentData (snd (processSensorData 2100 (reading 10 30 90 (boot 0)))) \<and>
   handleData (snd (packageData 2100 (reading 28 55 40 (boot 0))))
     = (snd (packageData 2100 (reading 28 55 40 (boot 0))))
         \<lparr>sensorReadingReady := False, clock := 500\<rparr>"
  by (simp add: processDataForTransmission_def handleData_def vTaskDelay_def Let_def
      pdMS_TO_TICKS_def configTICK_RATE_HZ_def processSensorData_def packageData_def
      checkSensorThresholds_def checkThresholds_def reading_def boot_def)

text \<open>
  C8, amended: with a published reading (the ready flag set), the first call takes the
  processing branch, blocking for 500 ticks, and clears the ready flag; a second call
  with no publish in between finds the flag clear and leaves through the early return,
  changing nothing.  Neither call returns a value, and the stored reading stays in
  place.  Both files agree.
\<close>

theorem consume_twice:
  assumes "sensorReadingReady d"
  shows "processDataForTransmission d = d\<lparr>sensorReadingReady := False, clock := clock d + 500\<rparr> \<and>
         \<not> sensorReadingReady (processDataForTransmission d) \<and>
         processDataForTransmission (processDataForTransmission d) = processDataForTransmission d \<and>
         currentData (processDataForTransmission (processDataForTransmission d)) = currentData d \<and>
         handleData d = d\<lparr>sensorReadingReady := False, clock := clock d + 500\<rparr> \<and>
         \<not> sensorReadingReady (handleData d) \<and>
         handleData (handleData d) = handleData d \<and>
         currentData (handleData (handleData d)) = currentData d"
  using assms
  by (simp add: processDataForTransmission_def handleData_def vTaskDelay_def Let_def
      pdMS_TO_TICKS_def configTICK_RATE_HZ_def)

theorem consume_twice_witness:
  "clock (processDataForTransmission (snd (processSensorData 2100 (boot 0)))) = 500 \<and>
   \<not> sensorReadingReady (processDataForTransmission (snd (processSensorData 2100 (boot 0)))) \<and>
   clock (processDataForTransmission
            (processDataForTransmission (snd (processSensorData 2100 (boot 0))))) = 500 \<and>
   currentData (processDataForTransmission
            (processDataForTransmission (snd (processSensorData 2100 (boot 0)))))
     = \<lparr>temperature = Fin 0, humidity = Fin 0, lightLevel = 0, timestamp = 2100\<rparr>"
proof -
  have pub: "sensorReadingReady (snd (processSensorData 2100 (boot 0)))"
    "clock (snd (processSensorData 2100 (boot 0))) = 0"
    "currentData (snd (processSensorData 2100 (boot 0)))
       = \<lparr>temperature = Fin 0, humidity = Fin 0, lightLevel = 0, timestamp = 2100\<rparr>"
    by (simp_all add: processSensorData_def checkSensorThresholds_def boot_def)
  show ?thesis
    using consume_twice [OF pub(1)] pub(2,3)
    by (simp add: processDataForTransmission_def)
qed

text \<open>
  C10: consuming never changes the stored reading.  With the ready flag clear the call
  changes nothing at all; with the flag set it clears the flag and lets 500 ticks pass,
  and changes nothing else.
\<close>

theorem consume_frame:
  "currentData (processDataForTransmission d) = currentData d \<and>
   currentData (handleData d) = currentData d \<and>
   (\<not> sensorReadingReady d \<longrightarrow>
      processDataForTransmission d = d \<and> handleData d = d) \<and>
   (sensorReadingReady d \<longrightarrow>
      processDataForTransmission d = d\<lparr>sensorReadingReady := False, clock := clock d + 500\<rparr> \<and>
      handleData d = d\<lparr>sensorReadingReady := False, clock := clock d + 500\<rparr>)"
  by (simp add: processDataForTransmission_def handleData_def vTaskDelay_def Let_def
      pdMS_TO_TICKS_def configTICK_RATE_HZ_def)

theorem consume_frame_witness:
  "processDataForTransmission (boot 0) = boot 0 \<and>
   currentData (processDataForTransmission (snd (processSensorData 2100 (boot 0))))
     = \<lparr>temperature = Fin 0, humidity = Fin 0, lightLevel = 0, timestamp = 2100\<rparr>"
  using consume_frame [of "boot 0"] consume_frame [of "snd (processSensorData 2100 (boot 0))"]
  by (simp add: processSensorData_def checkSensorThresholds_def boot_def)

section \<open>Sleep manager: one iteration\<close>

lemma pdMS_TO_TICKS_values:
  "pdMS_TO_TICKS 500 = 500" "pdMS_TO_TICKS 5000 = 5000"
  "pdMS_TO_TICKS DEEP_SLEEP_THRESHOLD_MS = 35000"
  "pdMS_TO_TICKS MEASUREMENT_INTERVAL_MS = 30000"
  by (simp_all add: pdMS_TO_TICKS_def configTICK_RATE_HZ_def DEEP_SLEEP_THRESHOLD_MS_def
      MEASUREMENT_INTERVAL_MS_def)

lemma enterDeepSleep_eq:
  "enterDeepSleep d = d\<lparr>wakeup_timer := Some 30000000, deep_sleep_starts := deep_sleep_starts d + 1\<rparr>"
  "enterDeepSleep_p0 d = enterDeepSleep d"
  by (simp_all add: enterDeepSleep_def enterDeepSleep_p0_def MEASUREMENT_INTERVAL_MS_def)

lemma tick_difference:
  fixes a b :: nat
  assumes "a \<le> b" and "b - a < 2 ^ 32"
  shows "(word_of_nat b - word_of_nat a :: 32 word) = word_of_nat (b - a)"
    and "((35000 :: 32 word) < word_of_nat b - word_of_nat a) = (35000 < b - a)"
proof -
  show eq: "(word_of_nat b - word_of_nat a :: 32 word) = word_of_nat (b - a)"
    using assms(1) by (simp add: of_nat_diff)
  have "unat (word_of_nat (b - a) :: 32 word) = b - a"
    using assms(2) by (intro of_nat_inverse) simp_all
  then show "((35000 :: 32 word) < word_of_nat b - word_of_nat a) = (35000 < b - a)"
    by (simp add: eq word_less_nat_alt)
qed

lemma iteration_Taken:
  "sleepManagerTask_iteration (Taken w) d =
     d\<lparr>sensorReadingReady := False,
       idleStartTime := word_of_nat (clock d + w + (if sensorReadingReady d then 500 else 0)),
       systemIdle := False, initialMeasurementComplete := True,
       clock := clock d + w + (if sensorReadingReady d then 500 else 0) + 500\<rparr>"
  by (simp add: sleepManagerTask_iteration_def processDataForTransmission_def vTaskDelay_def
      xTaskGetTickCount_def pdMS_TO_TICKS_values Let_def)

lemma iteration_TimedOut_waiting:
  "\<not> initialMeasurementComplete d \<Longrightarrow> \<not> suspended d \<Longrightarrow>
   sleepManagerTask_iteration TimedOut d = d\<lparr>clock := clock d + 5500\<rparr>"
  by (simp add: sleepManagerTask_iteration_def vTaskDelay_def suspended_def
      pdMS_TO_TICKS_values Let_def)

lemma iteration_TimedOut_active:
  "initialMeasurementComplete d \<Longrightarrow> \<not> systemIdle d \<Longrightarrow> \<not> suspended d \<Longrightarrow>
   sleepManagerTask_iteration TimedOut d =
     d\<lparr>idleStartTime := word_of_nat (clock d + 5000), systemIdle := True,
       clock := clock d + 5500\<rparr>"
  by (simp add: sleepManagerTask_iteration_def vTaskDelay_def suspended_def
      xTaskGetTickCount_def pdMS_TO_TICKS_values Let_def)

lemma iteration_TimedOut_idle:
  assumes "initialMeasurementComplete d" and "systemIdle d" and "\<not> suspended d"
    and "idleStartTime d = word_of_nat s" and "s \<le> clock d + 5000"
    and "clock d + 5000 - s < 2 ^ 32"
  shows "sleepManagerTask_iteration TimedOut d =
     (if 35000 < clock d + 5000 - s then enterDeepSleep (d\<lparr>clock := clock d + 5000\<rparr>)
      else d\<lparr>clock := clock d + 5500\<rparr>)"
  using assms tick_difference(2) [of s "clock d + 5000"]
  by (simp add: sleepManagerTask_iteration_def vTaskDelay_def suspended_def
      xTaskGetTickCount_def pdMS_TO_TICKS_values Let_def enterDeepSleep_eq)

lemma iteration_p0_eq:
  "sleepManagerTask_iteration_p0 p d = sleepManagerTask_iteration p d"
  by (cases p)
    (simp_all add: sleepManagerTask_iteration_p0_def sleepManagerTask_iteration_def
      handleData_def processDataForTransmission_def vTaskDelay_def xTaskGetTickCount_def
      enterDeepSleep_eq suspended_def Let_def)

lemma sleepManagerTask_p0_eq:
  "sleepManagerTask_p0 ps d = sleepManagerTask ps d"
  by (induction ps arbitrary: d) (simp_all add: iteration_p0_eq)

lemma run_suspended: "suspended d \<Longrightarrow> sleepManagerTask ps d = d"
  by (cases ps) simp_all

lemma run_append:
  "sleepManagerTask (ps @ qs) d = sleepManagerTask qs (sleepManagerTask ps d)"
  by (induction ps arbitrary: d) (simp_all add: run_suspended)

lemma run_snoc:
  "sleepManagerTask (ps @ [p]) d =
     (if suspended (sleepManagerTask ps d) then sleepManagerTask ps d
      else sleepManagerTask_iteration p (sleepManagerTask ps d))"
  by (simp add: run_append)

lemma iteration_suspends:
  assumes "\<not> suspended d" and "suspended (sleepManagerTask_iteration p d)"
  shows "p = TimedOut \<and> initialMeasurementComplete d \<and> systemIdle d"
proof (cases p)
  case (Taken w)
  with assms show ?thesis by (simp add: iteration_Taken suspended_def)
next
  case TimedOut
  show ?thesis
  proof (cases "initialMeasurementComplete d")
    case False
    with assms TimedOut show ?thesis
      by (simp add: iteration_TimedOut_waiting suspended_def)
  next
    case True
    with assms TimedOut show ?thesis
      by (cases "systemIdle d") (simp_all add: iteration_TimedOut_active suspended_def)
  qed
qed

lemma waiting_timeouts:
  assumes "\<not> suspended d" and "\<not> initialMeasurementComplete d"
  shows "sleepManagerTask (replicate n TimedOut) d = d\<lparr>clock := clock d + 5500 * n\<rparr>"
proof (induction n)
  case 0
  show ?case by simp
next
  case (Suc n)
  have "replicate (Suc n) TimedOut = replicate n TimedOut @ [TimedOut]"
    by (simp add: replicate_append_same)
  then show ?case
    using assms Suc
    by (simp only: run_snoc) (simp add: iteration_TimedOut_waiting suspended_def)
qed

lemma idle_timeouts:
  assumes "\<not> suspended d" and "initialMeasurementComplete d" and "\<not> systemIdle d"
    and "n \<le> 6"
  shows "sleepManagerTask (replicate (Suc n) TimedOut) d =
           d\<lparr>idleStartTime := word_of_nat (clock d + 5000), systemIdle := True,
             clock := clock d + 5500 * Suc n\<rparr>"
  using assms(4)
proof (induction n)
  case 0
  show ?case using assms(1-3) by (simp add: iteration_TimedOut_active)
next
  case (Suc n)
  let ?r = "d\<lparr>idleStartTime := word_of_nat (clock d + 5000), systemIdle := True,
             clock := clock d + 5500 * Suc n\<rparr>"
  have prev: "sleepManagerTask (replicate (Suc n) TimedOut) d = ?r"
    using Suc by simp
  have split: "replicate (Suc (Suc n)) TimedOut = replicate (Suc n) TimedOut @ [TimedOut]"
    by (simp only: replicate_append_same) simp
  have r: "\<not> suspended ?r" "initialMeasurementComplete ?r" "systemIdle ?r"
    "idleStartTime ?r = word_of_nat (clock d + 5000)"
    using assms(1,2) by (simp_all add: suspended_def)
  have step: "sleepManagerTask_iteration TimedOut ?r = ?r\<lparr>clock := clock ?r + 5500\<rparr>"
    using iteration_TimedOut_idle [OF r(2) r(3) r(1) r(4)] Suc.prems by simp
  show ?case
    by (simp only: split run_snoc prev r(1) if_False step) simp
qed

lemma eighth_timeout:
  assumes "\<not> suspended d" and "initialMeasurementComplete d" and "\<not> systemIdle d"
  shows "sleepManagerTask (replicate 8 TimedOut) d =
           d\<lparr>idleStartTime := word_of_nat (clock d + 5000), systemIdle := True,
             clock := clock d + 43500, wakeup_timer := Some 30000000,
             deep_sleep_starts := 1\<rparr>"
proof -
  let ?r = "d\<lparr>idleStartTime := word_of_nat (clock d + 5000), systemIdle := True,
             clock := clock d + 5500 * Suc 6\<rparr>"
  have prev: "sleepManagerTask (replicate (Suc 6) TimedOut) d = ?r"
    using idle_timeouts [OF assms, of 6] by simp
  have split: "replicate 8 TimedOut = replicate (Suc 6) TimedOut @ [TimedOut]"
    by (simp only: replicate_append_same) (simp add: eval_nat_numeral)
  have r: "\<not> suspended ?r" "initialMeasurementComplete ?r" "systemIdle ?r"
    "idleStartTime ?r = word_of_nat (clock d + 5000)"
    using assms(1,2) by (simp_all add: suspended_def)
  have step: "sleepManagerTask_iteration TimedOut ?r = enterDeepSleep (?r\<lparr>clock := clock ?r + 5000\<rparr>)"
    using iteration_TimedOut_idle [OF r(2) r(3) r(1) r(4)] by simp
  show ?thesis
    using assms(1)
    by (simp only: split run_snoc prev r(1) if_False step) (simp add: enterDeepSleep_eq suspended_def)
qed


section \<open>Sleep manager: stall and deep sleep\<close>

lemma run_Taken:
  "\<not> suspended d \<Longrightarrow>
   sleepManagerTask (Taken w # ps) d = sleepManagerTask ps (sleepManagerTask_iteration (Taken w) d)"
  by simp

lemma after_Taken:
  assumes "\<not> suspended d"
  shows "\<not> suspended (sleepManagerTask_iteration (Taken w) d)"
    "initialMeasurementComplete (sleepManagerTask_iteration (Taken w) d)"
    "\<not> systemIdle (sleepManagerTask_iteration (Taken w) d)"
    "clock (sleepManagerTask_iteration (Taken w) d)
       = clock d + w + (if sensorReadingReady d then 500 else 0) + 500"
    "deep_sleep_starts (sleepManagerTask_iteration (Taken w) d) = deep_sleep_starts d"
  using assms by (simp_all add: iteration_Taken suspended_def)

text \<open>
  C1, as stated, fails.  A device that has published a reading receives the signal at
  tick 0; the next seven polls time out and the following poll receives a signal at tick
  40000.  No signal arrived for 40000 ms, more than 35000, yet the state machine is
  Idle after the seventh timeout (tick 39500), Active after the second signal, and
  deep sleep was never started: the idle timer starts at the first timeout, 6000 ms
  after the signal, and is only compared at a timeout.
\<close>

theorem silence_of_40_seconds_without_deep_sleep:
  "signal_times [Taken 0, TimedOut, TimedOut, TimedOut, TimedOut, TimedOut, TimedOut, TimedOut,
                 Taken 500] (snd (processSensorData 0 (boot 0))) = [0, 40000] \<and>
   phase_of (sleepManagerTask [Taken 0, TimedOut, TimedOut, TimedOut, TimedOut, TimedOut,
                 TimedOut, TimedOut] (snd (processSensorData 0 (boot 0)))) = Idle \<and>
   clock (sleepManagerTask [Taken 0, TimedOut, TimedOut, TimedOut, TimedOut, TimedOut,
                 TimedOut, TimedOut] (snd (processSensorData 0 (boot 0)))) = 39500 \<and>
   phase_of (sleepManagerTask [Taken 0, TimedOut, TimedOut, TimedOut, TimedOut, TimedOut,
                 TimedOut, TimedOut, Taken 500] (snd (processSensorData 0 (boot 0)))) = Active \<and>
   deep_sleep_starts (sleepManagerTask [Taken 0, TimedOut, TimedOut, TimedOut, TimedOut,
                 TimedOut, TimedOut, TimedOut, Taken 500] (snd (processSensorData 0 (boot 0)))) = 0"
  by (simp add: sleepManagerTask_iteration_def processDataForTransmission_def vTaskDelay_def
      xTaskGetTickCount_def pdMS_TO_TICKS_values enterDeepSleep_eq suspended_def phase_of_def
      processSensorData_def checkSensorThresholds_def boot_def Let_def)

text \<open>
  C1, amended: after a poll has received the signal, fewer than eight timed-out polls in
  a row never start deep sleep, although after seven of them at least 39000 ticks have
  passed since the signal; the eighth timed-out poll in a row does, 44000 ticks after
  the signal was received (44500 when a reading was waiting to be processed).
  Deep sleep is then started exactly once whatever polls would follow, with the wake
  timer armed with 30,000,000 microseconds.  Both files agree.
\<close>

theorem deep_sleep_at_eighth_timeout:
  assumes "\<not> suspended d"
  shows "(n < 8 \<longrightarrow>
            \<not> suspended (sleepManagerTask (Taken w # replicate n TimedOut) d) \<and>
            clock (sleepManagerTask (Taken w # replicate n TimedOut) d)
              = clock d + w + (if sensorReadingReady d then 500 else 0) + 500 + 5500 * n) \<and>
         deep_sleep_starts (sleepManagerTask (Taken w # replicate 8 TimedOut @ qs) d) = 1 \<and>
         wakeup_timer (sleepManagerTask (Taken w # replicate 8 TimedOut @ qs) d) = Some 30000000 \<and>
         clock (sleepManagerTask (Taken w # replicate 8 TimedOut @ qs) d)
           = clock d + w + (if sensorReadingReady d then 500 else 0) + 44000 \<and>
         sleepManagerTask_p0 (Taken w # replicate 8 TimedOut @ qs) d
           = sleepManagerTask (Taken w # replicate 8 TimedOut @ qs) d"
proof -
  let ?a = "sleepManagerTask_iteration (Taken w) d"
  note a = after_Taken [OF assms, of w]
  have few: "\<not> suspended (sleepManagerTask (Taken w # replicate n TimedOut) d) \<and>
      clock (sleepManagerTask (Taken w # replicate n TimedOut) d)
        = clock d + w + (if sensorReadingReady d then 500 else 0) + 500 + 5500 * n" if "n < 8"
  proof (cases n)
    case 0
    then show ?thesis using assms a(1,4) by simp
  next
    case (Suc m)
    with that have "m \<le> 6" by simp
    from idle_timeouts [OF a(1) a(2) a(3) this] a(1,4) show ?thesis
      unfolding Suc run_Taken [OF assms] by (simp add: suspended_def)
  qed
  let ?s = "sleepManagerTask (replicate 8 TimedOut) ?a"
  have s: "suspended ?s" "deep_sleep_starts ?s = 1" "wakeup_timer ?s = Some 30000000"
    "clock ?s = clock ?a + 43500"
    by (simp_all add: eighth_timeout [OF a(1) a(2) a(3)] suspended_def)
  have run: "sleepManagerTask (Taken w # replicate 8 TimedOut @ qs) d = ?s"
    unfolding run_Taken [OF assms] run_append by (rule run_suspended) (rule s(1))
  show ?thesis
    using few s(2-4) a(4) by (simp only: run sleepManagerTask_p0_eq) simp
qed

theorem deep_sleep_at_eighth_timeout_witness:
  "\<not> suspended (sleepManagerTask (Taken 0 # replicate 7 TimedOut)
      (snd (processSensorData 0 (boot 0)))) \<and>
   clock (sleepManagerTask (Taken 0 # replicate 7 TimedOut)
      (snd (processSensorData 0 (boot 0)))) = 39500 \<and>
   deep_sleep_starts (sleepManagerTask (Taken 0 # replicate 8 TimedOut @ [TimedOut, Taken 0])
      (snd (processSensorData 0 (boot 0)))) = 1 \<and>
   wakeup_timer (sleepManagerTask (Taken 0 # replicate 8 TimedOut @ [TimedOut, Taken 0])
      (snd (processSensorData 0 (boot 0)))) = Some 30000000 \<and>
   clock (sleepManagerTask (Taken 0 # replicate 8 TimedOut @ [TimedOut, Taken 0])
      (snd (processSensorData 0 (boot 0)))) = 44500"
proof -
  have ns: "\<not> suspended (snd (processSensorData 0 (boot 0)))"
    by (simp add: suspended_def processSensorData_def checkSensorThresholds_def boot_def)
  have rd: "sensorReadingReady (snd (processSensorData 0 (boot 0)))"
    "clock (snd (processSensorData 0 (boot 0))) = 0"
    by (simp_all add: processSensorData_def checkSensorThresholds_def boot_def)
  show ?thesis
    using deep_sleep_at_eighth_timeout [OF ns, of 7 0 "[TimedOut, Taken 0]"] rd
    by simp
qed

text \<open>
  C3: an iteration of an awake device starts deep sleep only if its poll timed out while
  the device was Idle with an initial measurement received; so along every run the state
  before the transition to DeepSleep is Idle, never WaitingFirst or Active.  While no
  measurement has been received, any number of timed-out polls leaves the device in
  WaitingFirst, each adding 5500 ticks of elapsed time.  Both files agree.
\<close>

theorem deep_sleep_only_from_idle:
  assumes "\<not> suspended d"
  shows "(suspended (sleepManagerTask_iteration p d) \<longrightarrow>
            p = TimedOut \<and> phase_of d = Idle \<and> initialMeasurementComplete d) \<and>
         (suspended (sleepManagerTask (ps @ [p]) d) \<and> \<not> suspended (sleepManagerTask ps d) \<longrightarrow>
            p = TimedOut \<and> phase_of (sleepManagerTask ps d) = Idle \<and>
            initialMeasurementComplete (sleepManagerTask ps d)) \<and>
         (\<not> initialMeasurementComplete d \<longrightarrow>
            phase_of (sleepManagerTask (replicate n TimedOut) d) = WaitingFirst \<and>
            clock (sleepManagerTask (replicate n TimedOut) d) = clock d + 5500 * n) \<and>
         sleepManagerTask_iteration_p0 p d = sleepManagerTask_iteration p d \<and>
         sleepManagerTask_p0 ps d = sleepManagerTask ps d"
proof -
  have step: "p = TimedOut \<and> phase_of e = Idle \<and> initialMeasurementComplete e"
    if "\<not> suspended e" "suspended (sleepManagerTask_iteration p e)" for e
    using iteration_suspends [OF that] that(1) by (simp add: phase_of_def)
  have waiting: "phase_of (sleepManagerTask (replicate n TimedOut) d) = WaitingFirst \<and>
      clock (sleepManagerTask (replicate n TimedOut) d) = clock d + 5500 * n"
    if "\<not> initialMeasurementComplete d"
    using assms that by (simp add: waiting_timeouts [OF assms that] phase_of_def suspended_def)
  show ?thesis
    using step [OF assms] step [of "sleepManagerTask ps d"] waiting
    by (simp add: run_snoc iteration_p0_eq sleepManagerTask_p0_eq)
qed

theorem deep_sleep_only_from_idle_witness:
  "suspended (sleepManagerTask_iteration TimedOut
      (sleepManagerTask (Taken 0 # replicate 7 TimedOut) (boot 0))) \<and>
   phase_of (sleepManagerTask (Taken 0 # replicate 7 TimedOut) (boot 0)) = Idle \<and>
   phase_of (sleepManagerTask (replicate 9 TimedOut) (boot 0)) = WaitingFirst \<and>
   clock (sleepManagerTask (replicate 9 TimedOut) (boot 0)) = 49500"
proof -
  have ns: "\<not> suspended (boot 0)" "\<not> initialMeasurementComplete (boot 0)" "clock (boot 0) = 0"
    by (simp_all add: suspended_def boot_def)
  note a = after_Taken [OF ns(1), of 0]
  have seven: "sleepManagerTask (Taken 0 # replicate 7 TimedOut) (boot 0) =
      (sleepManagerTask_iteration (Taken 0) (boot 0))
        \<lparr>idleStartTime := word_of_nat (clock (sleepManagerTask_iteration (Taken 0) (boot 0)) + 5000),
         systemIdle := True,
         clock := clock (sleepManagerTask_iteration (Taken 0) (boot 0)) + 5500 * Suc 6\<rparr>"
    using idle_timeouts [OF a(1) a(2) a(3), of 6] ns(1) by (simp add: eval_nat_numeral(2) [of "Num.Bit1 (Num.Bit1 Num.One)"])
  have ns7: "\<not> suspended (sleepManagerTask (Taken 0 # replicate 7 TimedOut) (boot 0))"
    unfolding seven using a(1) by (simp add: suspended_def)
  have eighth: "suspended (sleepManagerTask_iteration TimedOut
      (sleepManagerTask (Taken 0 # replicate 7 TimedOut) (boot 0)))"
    unfolding seven
    by (simp add: sleepManagerTask_iteration_def processDataForTransmission_def vTaskDelay_def
        xTaskGetTickCount_def pdMS_TO_TICKS_values enterDeepSleep_eq suspended_def boot_def Let_def)
  show ?thesis
    using deep_sleep_only_from_idle [OF ns7, of TimedOut "[]" 0]
      deep_sleep_only_from_idle [OF ns(1), of TimedOut "[]" 9] ns(2,3) eighth
    by simp
qed

section \<open>Sleep manager: the periodic signal\<close>

lemma give_time_eq: "give_time first_give k = first_give + 30000 * k"
  by (simp add: give_time_def pdMS_TO_TICKS_values)

lemma sensor_only_cycles:
  "sensor_only sensorTask_cycle" "sensor_only sensorTask_cycle_p0"
  by (simp_all add: sensor_only_def sensorTask_cycle_def sensorTask_cycle_p0_def
      processSensorData_def packageData_def checkSensorThresholds_def checkThresholds_def
      readLightSensor_def readLight_def readDHTSensor_def readTempHumidity_def Let_def)

lemma sensor_only_fold:
  assumes "sensor_only cycle"
  shows "idleStartTime (fold (\<lambda>j. cycle (env j) (f j)) js d) = idleStartTime d \<and>
         systemIdle (fold (\<lambda>j. cycle (env j) (f j)) js d) = systemIdle d \<and>
         initialMeasurementComplete (fold (\<lambda>j. cycle (env j) (f j)) js d)
           = initialMeasurementComplete d \<and>
         clock (fold (\<lambda>j. cycle (env j) (f j)) js d) = clock d \<and>
         wakeup_timer (fold (\<lambda>j. cycle (env j) (f j)) js d) = wakeup_timer d \<and>
         deep_sleep_starts (fold (\<lambda>j. cycle (env j) (f j)) js d) = deep_sleep_starts d"
  using assms by (induction js arbitrary: d) (simp_all add: sensor_only_def)

lemma step_timeout:
  assumes "\<not> suspended d" and "clock d + 5000 \<le> give_time first_give k"
  shows "system_step iteration cycle first_give env (k, d) = (k, iteration TimedOut d)"
  using assms by (simp add: system_step_def xSemaphoreTake_def pdMS_TO_TICKS_values)

lemma step_taken:
  assumes "\<not> suspended d" and "give_time first_give k < clock d + 5000"
    and "clock d < give_time first_give k + 30000"
  shows "system_step iteration cycle first_give env (k, d) =
           (Suc k, iteration (Taken (give_time first_give k - clock d))
                     (cycle (env k) (word_of_nat (give_time first_give k)) d))"
proof (cases "give_time first_give k \<le> clock d")
  case True
  have "(clock d - first_give) div 30000 = k"
    using True assms(3) by (auto intro!: div_nat_eqI simp: give_time_eq)
  with True assms(1) show ?thesis
    by (simp add: system_step_def xSemaphoreTake_def pdMS_TO_TICKS_values)
next
  case False
  with assms(1,2) show ?thesis
    by (simp add: system_step_def xSemaphoreTake_def pdMS_TO_TICKS_values)
qed

lemma on_schedule_step:
  assumes inv: "on_schedule first_give (k, d)" and so: "sensor_only cycle"
  shows "on_schedule first_give (system_step sleepManagerTask_iteration cycle first_give env (k, d))"
proof -
  from inv have ns: "\<not> suspended d" and late: "clock d \<le> give_time first_give k + 1000"
    by (simp_all add: on_schedule_def)
  show ?thesis
  proof (cases "give_time first_give k < clock d + 5000")
    case True
    let ?d' = "cycle (env k) (word_of_nat (give_time first_give k)) d"
    have d': "clock ?d' = clock d" "deep_sleep_starts ?d' = deep_sleep_starts d"
      using so by (simp_all add: sensor_only_def)
    have step: "system_step sleepManagerTask_iteration cycle first_give env (k, d) =
        (Suc k, sleepManagerTask_iteration (Taken (give_time first_give k - clock d)) ?d')"
      using late by (intro step_taken [OF ns True]) simp
    show ?thesis
      using ns late True d'
      by (auto simp add: step on_schedule_def iteration_Taken suspended_def give_time_eq)
  next
    case False
    then have far: "clock d + 5000 \<le> give_time first_give k" by simp
    have step: "system_step sleepManagerTask_iteration cycle first_give env (k, d) =
        (k, sleepManagerTask_iteration TimedOut d)"
      by (rule step_timeout [OF ns far])
    show ?thesis
    proof (cases "initialMeasurementComplete d")
      case False
      with ns far show ?thesis
        by (simp add: step on_schedule_def iteration_TimedOut_waiting suspended_def)
    next
      case init: True
      with inv have near: "give_time first_give k \<le> clock d + 30000"
        by (simp add: on_schedule_def)
      show ?thesis
      proof (cases "systemIdle d")
        case False
        have "\<exists>s. (word_of_nat (clock d + 5000) :: 32 word) = word_of_nat s \<and>
                  s \<le> clock d + 5500 \<and> give_time first_give k \<le> s + 30000"
          using near by (intro exI [of _ "clock d + 5000"]) simp
        with ns far near init False show ?thesis
          by (simp add: step on_schedule_def iteration_TimedOut_active suspended_def)
      next
        case idle: True
        with inv init obtain s where s: "idleStartTime d = word_of_nat s" "s \<le> clock d"
          "give_time first_give k \<le> s + 30000"
          by (auto simp: on_schedule_def)
        have "clock d + 5000 - s \<le> 30000" using s(2,3) far by linarith
        then have it: "sleepManagerTask_iteration TimedOut d = d\<lparr>clock := clock d + 5500\<rparr>"
          using iteration_TimedOut_idle [OF init idle ns s(1)] s(2) by simp
        have "\<exists>s'. idleStartTime d = word_of_nat s' \<and> s' \<le> clock d + 5500 \<and>
                   give_time first_give k \<le> s' + 30000"
          using s by (intro exI [of _ s]) simp
        with ns far near init idle show ?thesis
          by (simp add: step it on_schedule_def suspended_def)
      qed
    qed
  qed
qed

lemma on_schedule_boot: "on_schedule first_give (0, boot junk)"
  by (simp add: on_schedule_def boot_def suspended_def)

lemma run_add:
  "system_run iteration cycle first_give env (m + n) kd =
     system_run iteration cycle first_give env n (system_run iteration cycle first_give env m kd)"
  by (induction m arbitrary: kd) simp_all

lemma run_Suc:
  "system_run iteration cycle first_give env (Suc n) kd =
     system_step iteration cycle first_give env (system_run iteration cycle first_give env n kd)"
  using run_add [of iteration cycle first_give env n 1 kd] by simp

lemma on_schedule_run:
  assumes "on_schedule first_give kd" and "sensor_only cycle"
  shows "on_schedule first_give (system_run sleepManagerTask_iteration cycle first_give env n kd)"
  using assms(1)
proof (induction n arbitrary: kd)
  case 0
  then show ?case by simp
next
  case (Suc n)
  from on_schedule_step [OF _ assms(2), of first_give "fst kd" "snd kd" env] Suc.prems
  have "on_schedule first_give (system_step sleepManagerTask_iteration cycle first_give env kd)" by simp
  from Suc.IH [OF this] show ?case by simp
qed

text \<open>Once the next signal is less than a poll away, the step takes it and the step after
  that times out.\<close>

lemma signal_then_idle:
  assumes inv: "on_schedule first_give (k, d)" and so: "sensor_only cycle"
    and near: "give_time first_give k < clock d + 5000"
  shows "phase_of (snd (system_step sleepManagerTask_iteration cycle first_give env (k, d))) = Active \<and>
         phase_of (snd (system_step sleepManagerTask_iteration cycle first_give env
                          (system_step sleepManagerTask_iteration cycle first_give env (k, d)))) = Idle"
proof -
  from inv have ns: "\<not> suspended d" and late: "clock d \<le> give_time first_give k + 1000"
    by (simp_all add: on_schedule_def)
  let ?d' = "cycle (env k) (word_of_nat (give_time first_give k)) d"
  let ?a = "sleepManagerTask_iteration (Taken (give_time first_give k - clock d)) ?d'"
  have d': "clock ?d' = clock d" "deep_sleep_starts ?d' = deep_sleep_starts d"
    using so by (simp_all add: sensor_only_def)
  have step: "system_step sleepManagerTask_iteration cycle first_give env (k, d) = (Suc k, ?a)"
    using late by (intro step_taken [OF ns near]) simp
  have a: "\<not> suspended ?a" "initialMeasurementComplete ?a" "\<not> systemIdle ?a"
    "clock ?a \<le> max (clock d) (give_time first_give k) + 1000"
    using ns d' by (auto simp add: iteration_Taken suspended_def)
  have far: "clock ?a + 5000 \<le> give_time first_give (Suc k)"
    using a(4) late by (simp add: give_time_eq)
  have step2: "system_step sleepManagerTask_iteration cycle first_give env (Suc k, ?a) =
      (Suc k, sleepManagerTask_iteration TimedOut ?a)"
    by (rule step_timeout [OF a(1) far])
  show ?thesis
    unfolding step step2 using a(1-3)
    by (simp add: iteration_TimedOut_active [OF a(2) a(3) a(1)] phase_of_def suspended_def)
qed

lemma next_signal_arrives:
  assumes "on_schedule first_give kd" and so: "sensor_only cycle"
  shows "\<exists>j. give_time first_give (fst (system_run sleepManagerTask_iteration cycle first_give env j kd))
              < clock (snd (system_run sleepManagerTask_iteration cycle first_give env j kd)) + 5000"
  using assms(1)
proof (induction "give_time first_give (fst kd) - clock (snd kd)" arbitrary: kd rule: less_induct)
  case less
  show ?case
  proof (cases "give_time first_give (fst kd) < clock (snd kd) + 5000")
    case True
    then have "give_time first_give (fst (system_run sleepManagerTask_iteration cycle first_give env 0 kd))
        < clock (snd (system_run sleepManagerTask_iteration cycle first_give env 0 kd)) + 5000"
      by simp
    then show ?thesis by (rule exI)
  next
    case False
    then have far: "clock (snd kd) + 5000 \<le> give_time first_give (fst kd)" by simp
    let ?kd' = "system_step sleepManagerTask_iteration cycle first_give env kd"
    from less.prems have ns: "\<not> suspended (snd kd)" by (simp add: on_schedule_def)
    have inv': "on_schedule first_give ?kd'"
      using on_schedule_step [OF _ so, of first_give "fst kd" "snd kd" env] less.prems by simp
    have step: "?kd' = (fst kd, sleepManagerTask_iteration TimedOut (snd kd))"
      using step_timeout [OF ns far, of sleepManagerTask_iteration cycle env] by simp
    have "clock (snd kd) < clock (sleepManagerTask_iteration TimedOut (snd kd))"
    proof (cases "initialMeasurementComplete (snd kd)")
      case False
      with ns show ?thesis by (simp add: iteration_TimedOut_waiting)
    next
      case init: True
      show ?thesis
      proof (cases "systemIdle (snd kd)")
        case False
        with ns init show ?thesis by (simp add: iteration_TimedOut_active)
      next
        case idle: True
        with less.prems init obtain s where s: "idleStartTime (snd kd) = word_of_nat s"
          "s \<le> clock (snd kd)" "give_time first_give (fst kd) \<le> s + 30000"
          by (auto simp: on_schedule_def)
        have "clock (snd kd) + 5000 - s \<le> 30000" using s(2,3) far by linarith
        then show ?thesis
          using iteration_TimedOut_idle [OF init idle ns s(1)] s(2) by simp
      qed
    qed
    then have "give_time first_give (fst ?kd') - clock (snd ?kd') < give_time first_give (fst kd) - clock (snd kd)"
      using far by (simp add: step)
    from less.hyps [OF this inv'] obtain j where
      "give_time first_give (fst (system_run sleepManagerTask_iteration cycle first_give env j ?kd'))
        < clock (snd (system_run sleepManagerTask_iteration cycle first_give env j ?kd')) + 5000" ..
    then have "give_time first_give (fst (system_run sleepManagerTask_iteration cycle first_give env (Suc j) kd))
        < clock (snd (system_run sleepManagerTask_iteration cycle first_give env (Suc j) kd)) + 5000"
      by simp
    then show ?thesis by (rule exI)
  qed
qed

lemma oscillation:
  assumes inv: "on_schedule first_give kd" and so: "sensor_only cycle"
  shows "\<exists>m. n \<le> m \<and>
           phase_of (snd (system_run sleepManagerTask_iteration cycle first_give env m kd)) = Active \<and>
           phase_of (snd (system_run sleepManagerTask_iteration cycle first_give env (Suc m) kd)) = Idle"
proof -
  let ?run = "system_run sleepManagerTask_iteration cycle first_give env"
  let ?step = "system_step sleepManagerTask_iteration cycle first_give env"
  have invn: "on_schedule first_give (?run n kd)" by (rule on_schedule_run [OF inv so])
  from next_signal_arrives [OF invn so, of env] obtain j where
    near: "give_time first_give (fst (?run j (?run n kd))) < clock (snd (?run j (?run n kd))) + 5000" ..
  let ?kd = "?run (n + j) kd"
  have near': "give_time first_give (fst ?kd) < clock (snd ?kd) + 5000"
    using near by (simp add: run_add)
  have "on_schedule first_give (fst ?kd, snd ?kd)" using on_schedule_run [OF inv so] by simp
  from signal_then_idle [OF this so near', of env]
  have "phase_of (snd (?run (Suc (n + j)) kd)) = Active \<and>
        phase_of (snd (?run (Suc (Suc (n + j))) kd)) = Idle"
    by (simp only: run_Suc prod.collapse)
  then show ?thesis
    by (intro exI [of _ "Suc (n + j)"]) simp
qed

text \<open>
  C2: with the signal given every 30,000 ms, from any first time, and any sensor values,
  the device is never in DeepSleep after any number of iterations, and from any
  iteration on there is a later one after which it is Active, followed by one after
  which it is Idle.  This holds for both files.
\<close>

theorem no_deep_sleep_at_period:
  "phase_of (savePower_system first_give env junk n) \<noteq> DeepSleep \<and>
   (\<exists>m. n \<le> m \<and> phase_of (savePower_system first_give env junk m) = Active \<and>
        phase_of (savePower_system first_give env junk (Suc m)) = Idle) \<and>
   phase_of (part000_system first_give env junk n) \<noteq> DeepSleep \<and>
   (\<exists>m. n \<le> m \<and> phase_of (part000_system first_give env junk m) = Active \<and>
        phase_of (part000_system first_give env junk (Suc m)) = Idle)"
proof -
  have p0: "sleepManagerTask_iteration_p0 = sleepManagerTask_iteration"
    by (intro ext) (rule iteration_p0_eq)
  have awake: "phase_of (snd (system_run sleepManagerTask_iteration cycle first_give env n (0, boot junk)))
      \<noteq> DeepSleep" if "sensor_only cycle" for cycle
    using on_schedule_run [OF on_schedule_boot that]
    by (simp add: on_schedule_def phase_of_def)
  have swing: "\<exists>m. n \<le> m \<and>
      phase_of (snd (system_run sleepManagerTask_iteration cycle first_give env m (0, boot junk))) = Active \<and>
      phase_of (snd (system_run sleepManagerTask_iteration cycle first_give env (Suc m) (0, boot junk))) = Idle"
    if "sensor_only cycle" for cycle
    by (rule oscillation [OF on_schedule_boot that])
  show ?thesis
    unfolding savePower_system_def part000_system_def p0
    using awake [OF sensor_only_cycles(1)] awake [OF sensor_only_cycles(2)]
      swing [OF sensor_only_cycles(1)] swing [OF sensor_only_cycles(2)]
    by simp
qed

end
